theory Spec2Isabelle
  imports Complex_Main "HOL-Library.Word" "HOL-Library.Sublist"
begin

section \<open>JavaScript values used by the route handlers\<close>

text \<open>
  A JavaScript string is a sequence of UTF-16 code units. ASCII literals of the source are
  written with \<open>js\<close>; the Turkish letters of the messages are given by their code units
  (U+00DC, U+00FC, U+00E7, U+00F6, U+0131, U+015F).
\<close>

type_synonym code_unit = "16 word"
type_synonym js_string = "code_unit list"

definition js :: "string \<Rightarrow> js_string" where
  "js s = map of_char s"

text \<open>
  \<^verbatim>\<open>formData.get(name)\<close> yields a string or \<^verbatim>\<open>null\<close> for the text fields of the form (a
  file entry is outside the types the source declares); the casts \<^verbatim>\<open>as string\<close> of the
  source change nothing at run time. \<open>None\<close> is \<^verbatim>\<open>null\<close>. \<open>falsy v\<close> is the test \<^verbatim>\<open>!v\<close>: of
  these values only \<^verbatim>\<open>null\<close> and the empty string are falsy.
\<close>

type_synonym js_value = "js_string option"

definition falsy :: "js_value \<Rightarrow> bool" where
  "falsy v = (case v of None \<Rightarrow> True | Some s \<Rightarrow> s = [])"

text \<open>\<^verbatim>\<open>v || null\<close>\<close>

definition or_null :: "js_value \<Rightarrow> js_value" where
  "or_null v = (if falsy v then None else v)"

text \<open>
  The result of \<^verbatim>\<open>parseInt\<close>: \<^verbatim>\<open>NaN\<close>, or the Number of an integer. Every integer of
  magnitude up to \<open>2 ^ 53\<close> is a Number (\<open>Exact\<close>); \<open>Rounded m\<close> stands for the Number
  nearest to a larger \<open>m\<close>, whose value is not modelled.
\<close>

datatype js_number = NaN | Exact int | Rounded int

definition to_number :: "int \<Rightarrow> js_number" where
  "to_number m = (if \<bar>m\<bar> \<le> 2 ^ 53 then Exact m else Rounded m)"

definition isNaN :: "js_number \<Rightarrow> bool" where
  "isNaN n = (case n of NaN \<Rightarrow> True | _ \<Rightarrow> False)"

text \<open>White space and line terminators that \<^verbatim>\<open>parseInt\<close> skips at the start of its input.\<close>

definition is_white_space :: "code_unit \<Rightarrow> bool" where
  "is_white_space c = (c \<in> set [0x9, 0xA, 0xB, 0xC, 0xD, 0x20, 0xA0, 0x1680,
      0x2000, 0x2001, 0x2002, 0x2003, 0x2004, 0x2005, 0x2006, 0x2007, 0x2008, 0x2009, 0x200A,
      0x2028, 0x2029, 0x202F, 0x205F, 0x3000, 0xFEFF])"

definition is_digit :: "code_unit \<Rightarrow> bool" where
  "is_digit c = (0x30 \<le> c \<and> c \<le> 0x39)"

definition digit_value :: "code_unit \<Rightarrow> int" where
  "digit_value c = uint c - 48"

definition decimal :: "code_unit list \<Rightarrow> int" where
  "decimal ds = foldl (\<lambda>acc d. 10 * acc + digit_value d) 0 ds"

text \<open>
  \<^verbatim>\<open>parseInt(inputString, 10)\<close> on a string: skip leading white space, read an optional sign,
  take the longest prefix of decimal digits; no digit gives \<^verbatim>\<open>NaN\<close>, and what follows the
  digits is ignored.
\<close>

definition parseInt10 :: "js_string \<Rightarrow> js_number" where
  "parseInt10 inputString =
     (let S = dropWhile is_white_space inputString;
          sign = (if S \<noteq> [] \<and> hd S = 0x2D then - 1 else 1);
          S' = (if S \<noteq> [] \<and> (hd S = 0x2B \<or> hd S = 0x2D) then tl S else S);
          Z = takeWhile is_digit S'
      in if Z = [] then NaN else to_number (sign * decimal Z))"

text \<open>\<^verbatim>\<open>parseInt(v, 10)\<close> on a form value: \<^verbatim>\<open>null\<close> is first converted to the string "null".\<close>

definition parseInt :: "js_value \<Rightarrow> js_number" where
  "parseInt v = (case v of None \<Rightarrow> parseInt10 (js ''null'') | Some s \<Rightarrow> parseInt10 s)"

text \<open>
  \<^verbatim>\<open>FormData\<close>: the submitted entries in order; \<^verbatim>\<open>get\<close> returns the first value of a name,
  or \<^verbatim>\<open>null\<close>.
\<close>

type_synonym form_data = "(js_string \<times> js_string) list"

definition form_get :: "form_data \<Rightarrow> js_string \<Rightarrow> js_value" where
  "form_get formData name = map_of formData name"

section \<open>Data model\<close>

text \<open>\<^verbatim>\<open>ProductWithGroup\<close> of \<^verbatim>\<open>products.tsx\<close>: a listed product with its joined group name.\<close>

record product_with_group =
  p_id :: js_string
  p_stock_code :: js_string
  p_material_name_1 :: js_string
  p_unit_of_measure :: js_string
  p_current_stock :: rat
  p_serial_number :: "js_string option"
  p_product_groups :: "js_string option"

text \<open>\<^verbatim>\<open>ProductGroup\<close> of the form page.\<close>

record product_group =
  g_id :: int
  g_name :: js_string

text \<open>The object literal passed to \<^verbatim>\<open>insert\<close> by the action.\<close>

record new_product =
  row_stock_code :: js_value
  row_material_name_1 :: js_value
  row_material_name_2 :: js_value
  row_unit_of_measure :: js_value
  row_serial_number :: js_value
  row_group_id :: js_number
  row_current_stock :: js_number

text \<open>\<^verbatim>\<open>ActionData\<close> and its \<^verbatim>\<open>fieldErrors\<close>; an unset key is \<open>None\<close>.\<close>

record field_errors =
  fe_stock_code :: "js_string option"
  fe_material_name_1 :: "js_string option"
  fe_unit_of_measure :: "js_string option"
  fe_group_id :: "js_string option"

record action_data =
  ad_error :: "js_string option"
  ad_fieldErrors :: "field_errors option"

definition no_field_errors :: field_errors where
  "no_field_errors = \<lparr>fe_stock_code = None, fe_material_name_1 = None,
     fe_unit_of_measure = None, fe_group_id = None\<rparr>"

text \<open>\<^verbatim>\<open>Object.keys(fieldErrors).length\<close>\<close>

definition keys_length :: "field_errors \<Rightarrow> nat" where
  "keys_length fe = length (filter (\<lambda>e. e \<noteq> None)
     [fe_stock_code fe, fe_material_name_1 fe, fe_unit_of_measure fe, fe_group_id fe])"

section \<open>HTTP responses\<close>

text \<open>
  Headers are name-value pairs; names are kept in lower case, as \<^verbatim>\<open>Headers\<close> normalises them.
  \<^verbatim>\<open>set\<close> replaces every entry of the name.
\<close>

type_synonym header_list = "(js_string \<times> js_string) list"

definition headers_has :: "js_string \<Rightarrow> header_list \<Rightarrow> bool" where
  "headers_has name hs = (name \<in> set (map fst hs))"

definition headers_set :: "js_string \<Rightarrow> js_string \<Rightarrow> header_list \<Rightarrow> header_list" where
  "headers_set name v hs = filter (\<lambda>h. fst h \<noteq> name) hs @ [(name, v)]"

definition headers_get :: "js_string \<Rightarrow> header_list \<Rightarrow> js_string option" where
  "headers_get name hs = map_of hs name"

datatype body =
    No_body
  | Text js_string
  | Json_action action_data
  | Json_products "product_with_group list"
  | Json_productGroups "product_group list"

record response =
  status :: nat
  headers :: header_list
  body :: body

text \<open>\<^verbatim>\<open>new Response(text, { status })\<close>: a string body brings its own content type, no other header.\<close>

definition new_Response :: "js_string \<Rightarrow> nat \<Rightarrow> response" where
  "new_Response text st = \<lparr>status = st,
     headers = [(js ''content-type'', js ''text/plain;charset=UTF-8'')], body = Text text\<rparr>"

text \<open>\<^verbatim>\<open>redirect(url, { headers })\<close> of the framework: status 302, the given headers with
  \<^verbatim>\<open>Location\<close> set.\<close>

definition redirect :: "js_string \<Rightarrow> header_list \<Rightarrow> response" where
  "redirect url hs = \<lparr>status = 302, headers = headers_set (js ''location'') url hs,
     body = No_body\<rparr>"

text \<open>\<^verbatim>\<open>json(data, { status, headers })\<close> of the framework: the given headers, with a JSON content
  type unless one is present.\<close>

definition json :: "body \<Rightarrow> nat \<Rightarrow> header_list \<Rightarrow> response" where
  "json data st hs = \<lparr>status = st,
     headers = (if headers_has (js ''content-type'') hs then hs
                else headers_set (js ''content-type'') (js ''application/json; charset=utf-8'') hs),
     body = data\<rparr>"

text \<open>A handler returns a response or throws one.\<close>

datatype outcome = Returned response | Thrown response

definition response_of :: "outcome \<Rightarrow> response" where
  "response_of out = (case out of Returned r \<Rightarrow> r | Thrown r \<Rightarrow> r)"

section \<open>The external client: authentication and data store\<close>

text \<open>
  The client made by \<^verbatim>\<open>createServerClient\<close> is an external collaborator. Its answers for
  one request are parameters of the handlers: the session \<^verbatim>\<open>auth.getSession()\<close> resolves to,
  the headers the auth client has written on the \<^verbatim>\<open>response\<close> object it was given, and the
  store's answers to the queries and to the insert, which may depend on the query or row
  and on the rows the table holds. \<open>response_headers\<close> is the content of
  \<^verbatim>\<open>response.headers\<close> as the handler reads it when it builds its response. A store call
  resolves to data or to an error value with a code; it does not throw.
\<close>

record session =
  user_id :: js_string

record store_error =
  err_code :: js_string
  err_message :: js_string

record query =
  q_table :: js_string
  q_columns :: "js_string list"
  q_order :: js_string
  q_ascending :: bool

datatype store_call = Select query | Insert js_string new_product

text \<open>The table \<^verbatim>\<open>products\<close> as far as the handlers write it, and the log of store calls.\<close>

record store =
  products_table :: "new_product list"
  calls :: "store_call list"

record supabase =
  getSession :: "session option"
  response_headers :: header_list
  select_products :: "query \<Rightarrow> new_product list \<Rightarrow> store_error + product_with_group list"
  select_groups :: "query \<Rightarrow> new_product list \<Rightarrow> store_error + product_group list"
  insert_error :: "new_product \<Rightarrow> new_product list \<Rightarrow> store_error option"

text \<open>
  \<^verbatim>\<open>supabase.from('products').insert([row])\<close>: the store answers with an error and creates
  nothing, or creates the row.
\<close>

definition insert_products :: "supabase \<Rightarrow> new_product \<Rightarrow> store \<Rightarrow> store_error option \<times> store" where
  "insert_products sb row st =
     (case insert_error sb row (products_table st) of
        Some e \<Rightarrow> (Some e, st\<lparr>calls := calls st @ [Insert (js ''products'') row]\<rparr>)
      | None \<Rightarrow> (None, st\<lparr>products_table := products_table st @ [row],
                           calls := calls st @ [Insert (js ''products'') row]\<rparr>))"

definition run_select_products ::
  "supabase \<Rightarrow> query \<Rightarrow> store \<Rightarrow> (store_error + product_with_group list) \<times> store" where
  "run_select_products sb q st =
     (select_products sb q (products_table st), st\<lparr>calls := calls st @ [Select q]\<rparr>)"

definition run_select_groups ::
  "supabase \<Rightarrow> query \<Rightarrow> store \<Rightarrow> (store_error + product_group list) \<times> store" where
  "run_select_groups sb q st =
     (select_groups sb q (products_table st), st\<lparr>calls := calls st @ [Select q]\<rparr>)"

section \<open>The product list route (\<^verbatim>\<open>src/app/routes/products.tsx\<close>)\<close>

text \<open>The query of the loader: table, the selected columns (the layout of the template
  literal dropped) and the order clause.\<close>

definition products_query :: query where
  "products_query = \<lparr>q_table = js ''products'',
     q_columns = [js ''id'', js ''stock_code'', js ''material_name_1'', js ''unit_of_measure'',
                  js ''current_stock'', js ''serial_number'', js ''product_groups ( name )''],
     q_order = js ''material_name_1'', q_ascending = True\<rparr>"

text \<open>The message of the thrown 500 ("Urunler yuklenirken bir hata olustu." with its
  Turkish letters), in code units.\<close>

definition msg_products_failed :: js_string where
  "msg_products_failed = [0xDC] @ js ''r'' @ [0xFC] @ js ''nler y'' @ [0xFC]
     @ js ''klenirken bir hata olu'' @ [0x15F] @ js ''tu.''"

definition loader_products :: "supabase \<Rightarrow> store \<Rightarrow> outcome \<times> store" where
  "loader_products sb st =
     (case getSession sb of
        None \<Rightarrow> (Returned (redirect (js ''/login'') (response_headers sb)), st)
      | Some session \<Rightarrow>
          (case run_select_products sb products_query st of
             (Inl error, st') \<Rightarrow> (Thrown (new_Response msg_products_failed 500), st')
           | (Inr products, st') \<Rightarrow>
               (Returned (json (Json_products products) 200 (response_headers sb)), st')))"

text \<open>
  \<^verbatim>\<open>ProductsPage\<close>: the rows of the table body. The placeholder row has one cell spanning
  the six columns. A product row carries its key, whether it is striped (odd index) and its
  six cells; the stock cell is shown by \<^verbatim>\<open>toLocaleString\<close> with three fraction digits,
  which is kept as the number.
\<close>

datatype cell = Cell js_string | Stock_cell rat

datatype table_row = Placeholder_tr nat js_string | Product_tr js_string bool "cell list"

text \<open>"Gosterilecek urun bulunamadi." with its Turkish letters.\<close>

definition msg_no_products :: js_string where
  "msg_no_products = js ''G'' @ [0xF6] @ js ''sterilecek '' @ [0xFC] @ js ''r'' @ [0xFC]
     @ js ''n bulunamad'' @ [0x131] @ js ''.''"

definition product_tr :: "nat \<times> product_with_group \<Rightarrow> table_row" where
  "product_tr ip =
     (case ip of (index, product) \<Rightarrow>
        Product_tr (p_id product) (index mod 2 \<noteq> 0)
          [Cell (p_stock_code product),
           Cell (p_material_name_1 product),
           Cell (case p_product_groups product of None \<Rightarrow> js ''N/A'' | Some name \<Rightarrow> name),
           Cell (p_unit_of_measure product),
           Stock_cell (p_current_stock product),
           Cell (case p_serial_number product of None \<Rightarrow> js ''-'' | Some sn \<Rightarrow> sn)])"

definition tbody :: "product_with_group list \<Rightarrow> table_row list" where
  "tbody products =
     (if length products = 0 then [Placeholder_tr 6 msg_no_products]
      else map product_tr (enumerate 0 products))"

section \<open>The new product route (\<^verbatim>\<open>src/unnamed/part_000\<close>)\<close>

definition groups_query :: query where
  "groups_query = \<lparr>q_table = js ''product_groups'', q_columns = [js ''id'', js ''name''],
     q_order = js ''name'', q_ascending = True\<rparr>"

text \<open>The messages of the route, with their Turkish letters as code units.\<close>

definition msg_groups_failed :: js_string where
  "msg_groups_failed = [0xDC] @ js ''r'' @ [0xFC] @ js ''n gruplar'' @ [0x131] @ js '' y''
     @ [0xFC] @ js ''klenirken bir hata olu'' @ [0x15F] @ js ''tu.''"

definition msg_stock_code_required :: js_string where
  "msg_stock_code_required = js ''Stok Kodu zorunludur.''"

definition msg_material_name_1_required :: js_string where
  "msg_material_name_1_required = js ''Malzeme Ad'' @ [0x131] @ js '' zorunludur.''"

definition msg_unit_of_measure_required :: js_string where
  "msg_unit_of_measure_required = js ''Birim zorunludur.''"

definition msg_group_id_required :: js_string where
  "msg_group_id_required = [0xDC] @ js ''r'' @ [0xFC] @ js ''n Grubu se'' @ [0xE7]
     @ js ''ilmelidir.''"

definition msg_group_id_invalid :: js_string where
  "msg_group_id_invalid = js ''Ge'' @ [0xE7] @ js ''ersiz '' @ [0xDC] @ js ''r'' @ [0xFC]
     @ js ''n Grubu.''"

text \<open>The template literal of the 409 message; \<^verbatim>\<open>null\<close> would print as "null".\<close>

definition to_string :: "js_value \<Rightarrow> js_string" where
  "to_string v = (case v of None \<Rightarrow> js ''null'' | Some s \<Rightarrow> s)"

definition msg_duplicate :: "js_value \<Rightarrow> js_string" where
  "msg_duplicate stock_code = js ''Bu Stok Kodu ('' @ to_string stock_code @ js '') zaten mevcut.''"

definition msg_insert_failed :: js_string where
  "msg_insert_failed = [0xDC] @ js ''r'' @ [0xFC] @ js ''n eklenirken bir veritaban''
     @ [0x131] @ js '' hatas'' @ [0x131] @ js '' olu'' @ [0x15F] @ js ''tu.''"

definition loader_new_product :: "supabase \<Rightarrow> store \<Rightarrow> outcome \<times> store" where
  "loader_new_product sb st =
     (case getSession sb of
        None \<Rightarrow> (Returned (redirect (js ''/login'') (response_headers sb)), st)
      | Some session \<Rightarrow>
          (case run_select_groups sb groups_query st of
             (Inl error, st') \<Rightarrow> (Thrown (new_Response msg_groups_failed 500), st')
           | (Inr productGroups, st') \<Rightarrow>
               (Returned (json (Json_productGroups productGroups) 200 (response_headers sb)), st')))"

text \<open>
  \<^verbatim>\<open>action\<close>: the session check, the four required-field checks gathered in
  \<^verbatim>\<open>fieldErrors\<close>, the return when a key is set, then the parse of \<^verbatim>\<open>group_id\<close>, the insert
  and the mapping of its error. \<^verbatim>\<open>console.error\<close> is not modelled.
\<close>

definition action :: "supabase \<Rightarrow> form_data \<Rightarrow> store \<Rightarrow> outcome \<times> store" where
  "action sb formData st =
     (case getSession sb of
        None \<Rightarrow> (Thrown (redirect (js ''/login'') (response_headers sb)), st)
      | Some session \<Rightarrow>
          (let stock_code = form_get formData (js ''stock_code'');
               material_name_1 = form_get formData (js ''material_name_1'');
               material_name_2 = form_get formData (js ''material_name_2'');
               unit_of_measure = form_get formData (js ''unit_of_measure'');
               serial_number = form_get formData (js ''serial_number'');
               group_id_str = form_get formData (js ''group_id'');
               fieldErrors = \<lparr>
                 fe_stock_code = (if falsy stock_code then Some msg_stock_code_required else None),
                 fe_material_name_1 =
                   (if falsy material_name_1 then Some msg_material_name_1_required else None),
                 fe_unit_of_measure =
                   (if falsy unit_of_measure then Some msg_unit_of_measure_required else None),
                 fe_group_id = (if falsy group_id_str then Some msg_group_id_required else None)\<rparr>
           in if keys_length fieldErrors > 0 then
                (Returned (json (Json_action \<lparr>ad_error = None, ad_fieldErrors = Some fieldErrors\<rparr>)
                   400 (response_headers sb)), st)
              else
                (let group_id = parseInt group_id_str in
                 if isNaN group_id then
                   (Returned (json (Json_action \<lparr>ad_error = None, ad_fieldErrors =
                        Some (no_field_errors\<lparr>fe_group_id := Some msg_group_id_invalid\<rparr>)\<rparr>)
                      400 (response_headers sb)), st)
                 else
                   (case insert_products sb
                       \<lparr>row_stock_code = stock_code,
                        row_material_name_1 = material_name_1,
                        row_material_name_2 = or_null material_name_2,
                        row_unit_of_measure = unit_of_measure,
                        row_serial_number = or_null serial_number,
                        row_group_id = group_id,
                        row_current_stock = Exact 0\<rparr> st of
                      (Some error, st') \<Rightarrow>
                        if err_code error = js ''23505'' then
                          (Returned (json (Json_action \<lparr>ad_error = Some (msg_duplicate stock_code),
                               ad_fieldErrors = None\<rparr>) 409 (response_headers sb)), st')
                        else
                          (Returned (json (Json_action \<lparr>ad_error = Some msg_insert_failed,
                               ad_fieldErrors = None\<rparr>) 500 (response_headers sb)), st')
                    | (None, st') \<Rightarrow>
                        (Returned (redirect (js ''/products'') (response_headers sb)), st')))))"

section \<open>Notions used to state the properties\<close>

text \<open>The row the action passes to \<^verbatim>\<open>insert\<close>, as a function of the form.\<close>

definition submitted_row :: "form_data \<Rightarrow> new_product" where
  "submitted_row formData =
     \<lparr>row_stock_code = form_get formData (js ''stock_code''),
      row_material_name_1 = form_get formData (js ''material_name_1''),
      row_material_name_2 = or_null (form_get formData (js ''material_name_2'')),
      row_unit_of_measure = form_get formData (js ''unit_of_measure''),
      row_serial_number = or_null (form_get formData (js ''serial_number'')),
      row_group_id = parseInt (form_get formData (js ''group_id'')),
      row_current_stock = Exact 0\<rparr>"

text \<open>A required field of the form is missing: omitted or empty.\<close>

definition some_required_missing :: "form_data \<Rightarrow> bool" where
  "some_required_missing formData =
     (falsy (form_get formData (js ''stock_code'')) \<or>
      falsy (form_get formData (js ''material_name_1'')) \<or>
      falsy (form_get formData (js ''unit_of_measure'')) \<or>
      falsy (form_get formData (js ''group_id'')))"

definition field_errors_of :: "outcome \<Rightarrow> field_errors option" where
  "field_errors_of out =
     (case body (response_of out) of Json_action ad \<Rightarrow> ad_fieldErrors ad | _ \<Rightarrow> None)"

definition is_returned :: "outcome \<Rightarrow> bool" where
  "is_returned out = (case out of Returned r \<Rightarrow> True | Thrown r \<Rightarrow> False)"

definition is_placeholder :: "table_row \<Rightarrow> bool" where
  "is_placeholder row = (case row of Placeholder_tr n text \<Rightarrow> True | Product_tr k z cs \<Rightarrow> False)"

definition whitespace_only :: "js_string \<Rightarrow> bool" where
  "whitespace_only s = (s \<noteq> [] \<and> list_all is_white_space s)"

text \<open>
  The store honours the order clause of a product query under its collation \<open>le\<close>: data
  answered to a query that orders by \<^verbatim>\<open>material_name_1\<close> ascending is ordered so.
\<close>

definition honours_order :: "(js_string \<Rightarrow> js_string \<Rightarrow> bool) \<Rightarrow> supabase \<Rightarrow> bool" where
  "honours_order le sb =
     (\<forall>q t ps. select_products sb q t = Inr ps \<and> q_order q = js ''material_name_1''
         \<and> q_ascending q
       \<longrightarrow> sorted_wrt (\<lambda>a b. le (p_material_name_1 a) (p_material_name_1 b)) ps)"

text \<open>The order of strings by code units, an example of a collation.\<close>

fun js_le :: "js_string \<Rightarrow> js_string \<Rightarrow> bool" where
  "js_le [] ys = True"
| "js_le (x # xs) [] = False"
| "js_le (x # xs) (y # ys) = (x < y \<or> (x = y \<and> js_le xs ys))"

section \<open>Example requests\<close>

definition store0 :: store where
  "store0 = \<lparr>products_table = [], calls = []\<rparr>"

definition product_civata :: product_with_group where
  "product_civata = \<lparr>p_id = js ''1'', p_stock_code = js ''C-1'', p_material_name_1 = js ''Civata'',
     p_unit_of_measure = js ''adet'', p_current_stock = 5, p_serial_number = None,
     p_product_groups = Some (js ''Baglanti'')\<rparr>"

definition product_vida :: product_with_group where
  "product_vida = \<lparr>p_id = js ''2'', p_stock_code = js ''V-1'', p_material_name_1 = js ''Vida'',
     p_unit_of_measure = js ''kutu'', p_current_stock = 5 / 2, p_serial_number = Some (js ''SN7''),
     p_product_groups = None\<rparr>"

text \<open>A signed-in client whose store accepts every insert and lists two products.\<close>

definition client_ok :: supabase where
  "client_ok = \<lparr>getSession = Some \<lparr>user_id = js ''u1''\<rparr>,
     response_headers = [(js ''set-cookie'', js ''sb-token=1'')],
     select_products = (\<lambda>q t. Inr [product_civata, product_vida]),
     select_groups = (\<lambda>q t. Inr [\<lparr>g_id = 3, g_name = js ''Baglanti''\<rparr>]),
     insert_error = (\<lambda>row t. None)\<rparr>"

text \<open>The same client with an empty product list.\<close>

definition client_empty :: supabase where
  "client_empty = client_ok\<lparr>select_products := (\<lambda>q t. Inr [])\<rparr>"

text \<open>No session.\<close>

definition client_anonymous :: supabase where
  "client_anonymous = client_ok\<lparr>getSession := None\<rparr>"

text \<open>A store that enforces the unique stock code: an insert of a present code is refused
  with 23505.\<close>

definition client_unique :: supabase where
  "client_unique = client_ok\<lparr>insert_error := (\<lambda>row t.
     if row_stock_code row \<in> set (map row_stock_code t)
     then Some \<lparr>err_code = js ''23505'', err_message = js ''duplicate key''\<rparr> else None)\<rparr>"

text \<open>A store that fails every call with a connection error.\<close>

definition client_down :: supabase where
  "client_down = client_ok\<lparr>
     select_products := (\<lambda>q t. Inl \<lparr>err_code = js ''08006'', err_message = js ''connection failure''\<rparr>),
     select_groups := (\<lambda>q t. Inl \<lparr>err_code = js ''08006'', err_message = js ''connection failure''\<rparr>),
     insert_error := (\<lambda>row t. Some \<lparr>err_code = js ''08006'', err_message = js ''connection failure''\<rparr>)\<rparr>"

definition form_valid :: form_data where
  "form_valid = [(js ''stock_code'', js ''V-1''), (js ''material_name_1'', js ''Vida''),
     (js ''material_name_2'', []), (js ''unit_of_measure'', js ''kutu''), (js ''group_id'', js ''3'')]"

definition form_missing :: form_data where
  "form_missing = [(js ''stock_code'', []), (js ''material_name_1'', js ''Vida''),
     (js ''unit_of_measure'', js ''kutu'')]"

definition form_abc :: form_data where
  "form_abc = [(js ''stock_code'', js ''V-1''), (js ''material_name_1'', js ''Vida''),
     (js ''unit_of_measure'', js ''kutu''), (js ''group_id'', js ''abc'')]"

definition form_abc_no_code :: form_data where
  "form_abc_no_code = [(js ''stock_code'', []), (js ''material_name_1'', js ''Vida''),
     (js ''unit_of_measure'', js ''kutu''), (js ''group_id'', js ''abc'')]"

definition form_12abc :: form_data where
  "form_12abc = [(js ''stock_code'', js ''V-1''), (js ''material_name_1'', js ''Vida''),
     (js ''unit_of_measure'', js ''kutu''), (js ''group_id'', js ''12abc'')]"

definition form_blank :: form_data where
  "form_blank = [(js ''stock_code'', js '' ''), (js ''material_name_1'', js '' ''),
     (js ''material_name_2'', js '' ''), (js ''unit_of_measure'', js '' ''),
     (js ''serial_number'', js '' ''), (js ''group_id'', js ''3'')]"

text \<open>A store that already holds a product with the stock code of \<open>form_valid\<close>.\<close>

definition store_with_vida :: store where
  "store_with_vida = \<lparr>products_table = [submitted_row form_valid], calls = []\<rparr>"

section \<open>Facts about the responses and the action\<close>

lemma map_of_filter_other: "map_of (filter (\<lambda>h. fst h \<noteq> name) hs) name = None"
  by (induction hs) auto

lemma headers_get_set: "headers_get name (headers_set name v hs) = Some v"
  by (simp add: headers_get_def headers_set_def map_add_def map_of_filter_other)

lemma redirect_status: "status (redirect url hs) = 302"
  by (simp add: redirect_def)

lemma redirect_location: "headers_get (js ''location'') (headers (redirect url hs)) = Some url"
  by (simp add: redirect_def headers_get_set)

lemma keys_length_required:
  "(0 < keys_length \<lparr>fe_stock_code = (if a then Some ma else None),
       fe_material_name_1 = (if b then Some mb else None),
       fe_unit_of_measure = (if c then Some mc else None),
       fe_group_id = (if d then Some md else None)\<rparr>) = (a \<or> b \<or> c \<or> d)"
  by (simp add: keys_length_def)

lemma action_no_session:
  "getSession sb = None \<Longrightarrow>
   action sb formData st = (Thrown (redirect (js ''/login'') (response_headers sb)), st)"
  by (simp add: action_def)

lemma action_missing:
  assumes "getSession sb = Some s" and "some_required_missing formData"
  shows "action sb formData st =
    (Returned (json (Json_action \<lparr>ad_error = None, ad_fieldErrors = Some \<lparr>
        fe_stock_code = (if falsy (form_get formData (js ''stock_code''))
                         then Some msg_stock_code_required else None),
        fe_material_name_1 = (if falsy (form_get formData (js ''material_name_1''))
                         then Some msg_material_name_1_required else None),
        fe_unit_of_measure = (if falsy (form_get formData (js ''unit_of_measure''))
                         then Some msg_unit_of_measure_required else None),
        fe_group_id = (if falsy (form_get formData (js ''group_id''))
                         then Some msg_group_id_required else None)\<rparr>\<rparr>)
      400 (response_headers sb)), st)"
  using assms unfolding action_def Let_def some_required_missing_def
  by (simp only: keys_length_required option.case if_True)

lemma action_complete:
  assumes "getSession sb = Some s" and "\<not> some_required_missing formData"
  shows "action sb formData st =
    (if isNaN (parseInt (form_get formData (js ''group_id''))) then
       (Returned (json (Json_action \<lparr>ad_error = None, ad_fieldErrors =
            Some (no_field_errors\<lparr>fe_group_id := Some msg_group_id_invalid\<rparr>)\<rparr>)
          400 (response_headers sb)), st)
     else
       (case insert_products sb (submitted_row formData) st of
          (Some error, st') \<Rightarrow>
            if err_code error = js ''23505'' then
              (Returned (json (Json_action
                  \<lparr>ad_error = Some (msg_duplicate (form_get formData (js ''stock_code''))),
                   ad_fieldErrors = None\<rparr>) 409 (response_headers sb)), st')
            else
              (Returned (json (Json_action \<lparr>ad_error = Some msg_insert_failed,
                   ad_fieldErrors = None\<rparr>) 500 (response_headers sb)), st')
        | (None, st') \<Rightarrow>
            (Returned (redirect (js ''/products'') (response_headers sb)), st')))"
  using assms unfolding action_def Let_def some_required_missing_def submitted_row_def
  by (simp only: keys_length_required option.case if_False)


lemma loader_products_no_session:
  "getSession sb = None \<Longrightarrow>
   loader_products sb st = (Returned (redirect (js ''/login'') (response_headers sb)), st)"
  by (simp add: loader_products_def)

lemma loader_new_product_no_session:
  "getSession sb = None \<Longrightarrow>
   loader_new_product sb st = (Returned (redirect (js ''/login'') (response_headers sb)), st)"
  by (simp add: loader_new_product_def)

section \<open>The session guard\<close>

text \<open>
  Claim C1. A request with no session: the list loader and the form loader return, and the
  action throws, a redirect (status 302) to \<^verbatim>\<open>/login\<close>; the store is left as it was, with
  no call added to its log, so no query and no insert is made.
\<close>

theorem no_session_redirects_to_login:
  assumes "getSession sb = None"
  shows "loader_products sb st = (Returned (redirect (js ''/login'') (response_headers sb)), st)
     \<and> loader_new_product sb st = (Returned (redirect (js ''/login'') (response_headers sb)), st)
     \<and> action sb formData st = (Thrown (redirect (js ''/login'') (response_headers sb)), st)
     \<and> status (redirect (js ''/login'') (response_headers sb)) = 302
     \<and> headers_get (js ''location'') (headers (redirect (js ''/login'') (response_headers sb)))
         = Some (js ''/login'')"
  using assms
  by (simp add: loader_products_no_session loader_new_product_no_session action_no_session
      redirect_status redirect_location)

theorem no_session_redirects_to_login_witness:
  "getSession client_anonymous = None
   \<and> loader_products client_anonymous store0
       = (Returned (redirect (js ''/login'') [(js ''set-cookie'', js ''sb-token=1'')]), store0)
   \<and> action client_anonymous form_valid store0
       = (Thrown (redirect (js ''/login'') [(js ''set-cookie'', js ''sb-token=1'')]), store0)
   \<and> calls store0 = []"
  using no_session_redirects_to_login [of client_anonymous store0 form_valid]
  by (simp add: client_anonymous_def client_ok_def store0_def)

section \<open>Validation of the submitted form\<close>

text \<open>
  Claim C3. A signed-in submission in which one of \<^verbatim>\<open>stock_code\<close>, \<^verbatim>\<open>material_name_1\<close>,
  \<^verbatim>\<open>unit_of_measure\<close>, \<^verbatim>\<open>group_id\<close> is omitted or empty: the action returns status 400 whose
  \<^verbatim>\<open>fieldErrors\<close> hold the required message of every missing field (and of no other), and
  the store is left as it was: no insert call is made.
\<close>

theorem missing_required_field_gives_400:
  assumes "getSession sb = Some s" and "some_required_missing formData"
  shows "is_returned (fst (action sb formData st))
     \<and> status (response_of (fst (action sb formData st))) = 400
     \<and> snd (action sb formData st) = st
     \<and> (\<exists>fe. field_errors_of (fst (action sb formData st)) = Some fe
          \<and> fe_stock_code fe = (if falsy (form_get formData (js ''stock_code''))
                                then Some msg_stock_code_required else None)
          \<and> fe_material_name_1 fe = (if falsy (form_get formData (js ''material_name_1''))
                                then Some msg_material_name_1_required else None)
          \<and> fe_unit_of_measure fe = (if falsy (form_get formData (js ''unit_of_measure''))
                                then Some msg_unit_of_measure_required else None)
          \<and> fe_group_id fe = (if falsy (form_get formData (js ''group_id''))
                                then Some msg_group_id_required else None))"
  by (simp add: action_missing [OF assms] is_returned_def response_of_def json_def
      field_errors_of_def)

lemma form_missing_fields:
  "form_get form_missing (js ''stock_code'') = Some []"
  "form_get form_missing (js ''material_name_1'') = Some (js ''Vida'')"
  "form_get form_missing (js ''unit_of_measure'') = Some (js ''kutu'')"
  "form_get form_missing (js ''group_id'') = None"
  by (simp_all add: form_missing_def form_get_def js_def)

theorem missing_required_field_gives_400_witness:
  "getSession client_ok = Some \<lparr>user_id = js ''u1''\<rparr>
   \<and> some_required_missing form_missing
   \<and> status (response_of (fst (action client_ok form_missing store0))) = 400
   \<and> snd (action client_ok form_missing store0) = store0
   \<and> field_errors_of (fst (action client_ok form_missing store0))
       = Some \<lparr>fe_stock_code = Some msg_stock_code_required, fe_material_name_1 = None,
               fe_unit_of_measure = None, fe_group_id = Some msg_group_id_required\<rparr>"
proof -
  have s: "getSession client_ok = Some \<lparr>user_id = js ''u1''\<rparr>"
    by (simp add: client_ok_def)
  have m: "some_required_missing form_missing"
    by (simp add: some_required_missing_def form_missing_fields falsy_def)
  have nf: "\<not> falsy (Some (js ''Vida''))" "\<not> falsy (Some (js ''kutu''))"
    by (simp_all add: falsy_def js_def)
  from missing_required_field_gives_400 [OF s m, of store0] s m nf show ?thesis
    by (auto simp add: form_missing_fields falsy_def)
qed

subsection \<open>Further facts, and the examples evaluated\<close>

lemma insert_products_refused:
  "insert_error sb row (products_table st) = Some e \<Longrightarrow>
   insert_products sb row st = (Some e, st\<lparr>calls := calls st @ [Insert (js ''products'') row]\<rparr>)"
  by (simp add: insert_products_def)

lemma insert_products_accepted:
  "insert_error sb row (products_table st) = None \<Longrightarrow>
   insert_products sb row st = (None, st\<lparr>products_table := products_table st @ [row],
      calls := calls st @ [Insert (js ''products'') row]\<rparr>)"
  by (simp add: insert_products_def)

lemma msg_group_id_invalid_neq_required: "msg_group_id_invalid \<noteq> msg_group_id_required"
  by (simp add: msg_group_id_invalid_def msg_group_id_required_def js_def)

lemma form_valid_fields:
  "form_get form_valid (js ''stock_code'') = Some (js ''V-1'')"
  "form_get form_valid (js ''material_name_1'') = Some (js ''Vida'')"
  "form_get form_valid (js ''material_name_2'') = Some []"
  "form_get form_valid (js ''unit_of_measure'') = Some (js ''kutu'')"
  "form_get form_valid (js ''serial_number'') = None"
  "form_get form_valid (js ''group_id'') = Some (js ''3'')"
  by (simp_all add: form_valid_def form_get_def js_def)

lemma form_abc_fields:
  "form_get form_abc (js ''stock_code'') = Some (js ''V-1'')"
  "form_get form_abc (js ''material_name_1'') = Some (js ''Vida'')"
  "form_get form_abc (js ''unit_of_measure'') = Some (js ''kutu'')"
  "form_get form_abc (js ''group_id'') = Some (js ''abc'')"
  by (simp_all add: form_abc_def form_get_def js_def)

lemma form_abc_no_code_fields:
  "form_get form_abc_no_code (js ''stock_code'') = Some []"
  "form_get form_abc_no_code (js ''material_name_1'') = Some (js ''Vida'')"
  "form_get form_abc_no_code (js ''unit_of_measure'') = Some (js ''kutu'')"
  "form_get form_abc_no_code (js ''group_id'') = Some (js ''abc'')"
  by (simp_all add: form_abc_no_code_def form_get_def js_def)

lemma parseInt_examples:
  "parseInt (Some (js ''abc'')) = NaN"
  "parseInt (Some (js ''3'')) = Exact 3"
  "parseInt (Some (js ''12abc'')) = Exact 12"
  by (simp_all add: parseInt_def parseInt10_def js_def is_white_space_def is_digit_def
      decimal_def digit_value_def to_number_def)

lemma not_falsy_examples:
  "\<not> falsy (Some (js ''V-1''))" "\<not> falsy (Some (js ''Vida''))" "\<not> falsy (Some (js ''kutu''))"
  "\<not> falsy (Some (js ''abc''))" "\<not> falsy (Some (js ''3''))" "\<not> falsy (Some (js ''12abc''))"
  "\<not> falsy (Some (js '' ''))" "falsy (Some [])" "falsy None"
  by (simp_all add: falsy_def js_def)

lemma client_ok_session: "getSession client_ok = Some \<lparr>user_id = js ''u1''\<rparr>"
  by (simp add: client_ok_def)

text \<open>
  Claim C2. As stated the claim fails: the four required-field checks are gathered in
  \<^verbatim>\<open>fieldErrors\<close>, and the action returns them before \<^verbatim>\<open>group_id\<close> is parsed. What holds
  for a signed-in submission: when all four required fields are present and
  \<^verbatim>\<open>parseInt(group_id, 10)\<close> is \<^verbatim>\<open>NaN\<close>, the response is a 400 whose only field error is the
  \<^verbatim>\<open>group_id\<close> message for an invalid group, which differs from the required message, and
  the store is untouched; when a required field is missing, the response is a 400 whose
  \<^verbatim>\<open>fieldErrors\<close> hold the required message of each of the four fields that is missing
  and nothing else (so the \<^verbatim>\<open>group_id\<close> entry is absent when \<^verbatim>\<open>group_id\<close> is present,
  whatever it contains), and the store is untouched.
\<close>

theorem group_id_checked_after_required_fields:
  assumes "getSession sb = Some s"
  shows "(\<not> some_required_missing formData
          \<and> isNaN (parseInt (form_get formData (js ''group_id'')))
        \<longrightarrow> action sb formData st =
             (Returned (json (Json_action \<lparr>ad_error = None, ad_fieldErrors =
                Some \<lparr>fe_stock_code = None, fe_material_name_1 = None,
                      fe_unit_of_measure = None, fe_group_id = Some msg_group_id_invalid\<rparr>\<rparr>)
              400 (response_headers sb)), st))
     \<and> (some_required_missing formData
        \<longrightarrow> action sb formData st =
             (Returned (json (Json_action \<lparr>ad_error = None, ad_fieldErrors = Some \<lparr>
                fe_stock_code = (if falsy (form_get formData (js ''stock_code''))
                                 then Some msg_stock_code_required else None),
                fe_material_name_1 = (if falsy (form_get formData (js ''material_name_1''))
                                 then Some msg_material_name_1_required else None),
                fe_unit_of_measure = (if falsy (form_get formData (js ''unit_of_measure''))
                                 then Some msg_unit_of_measure_required else None),
                fe_group_id = (if falsy (form_get formData (js ''group_id''))
                                 then Some msg_group_id_required else None)\<rparr>\<rparr>)
              400 (response_headers sb)), st)
          \<and> status (response_of (fst (action sb formData st))) = 400)
     \<and> msg_group_id_invalid \<noteq> msg_group_id_required"
proof (intro conjI impI)
  assume "\<not> some_required_missing formData
          \<and> isNaN (parseInt (form_get formData (js ''group_id'')))"
  then show "action sb formData st =
             (Returned (json (Json_action \<lparr>ad_error = None, ad_fieldErrors =
                Some \<lparr>fe_stock_code = None, fe_material_name_1 = None,
                      fe_unit_of_measure = None, fe_group_id = Some msg_group_id_invalid\<rparr>\<rparr>)
              400 (response_headers sb)), st)"
    using action_complete [OF assms, of formData st] by (simp add: no_field_errors_def)
next
  assume m: "some_required_missing formData"
  show "action sb formData st =
             (Returned (json (Json_action \<lparr>ad_error = None, ad_fieldErrors = Some \<lparr>
                fe_stock_code = (if falsy (form_get formData (js ''stock_code''))
                                 then Some msg_stock_code_required else None),
                fe_material_name_1 = (if falsy (form_get formData (js ''material_name_1''))
                                 then Some msg_material_name_1_required else None),
                fe_unit_of_measure = (if falsy (form_get formData (js ''unit_of_measure''))
                                 then Some msg_unit_of_measure_required else None),
                fe_group_id = (if falsy (form_get formData (js ''group_id''))
                                 then Some msg_group_id_required else None)\<rparr>\<rparr>)
              400 (response_headers sb)), st)"
    by (rule action_missing [OF assms m])
  show "status (response_of (fst (action sb formData st))) = 400"
    by (simp add: action_missing [OF assms m] response_of_def json_def)
next
  show "msg_group_id_invalid \<noteq> msg_group_id_required"
    by (rule msg_group_id_invalid_neq_required)
qed

theorem group_id_checked_after_required_fields_witness:
  "action client_ok form_abc store0 =
     (Returned (json (Json_action \<lparr>ad_error = None, ad_fieldErrors =
        Some \<lparr>fe_stock_code = None, fe_material_name_1 = None,
              fe_unit_of_measure = None, fe_group_id = Some msg_group_id_invalid\<rparr>\<rparr>)
      400 [(js ''set-cookie'', js ''sb-token=1'')]), store0)
   \<and> some_required_missing form_abc_no_code
   \<and> action client_ok form_abc_no_code store0 =
     (Returned (json (Json_action \<lparr>ad_error = None, ad_fieldErrors =
        Some \<lparr>fe_stock_code = Some msg_stock_code_required, fe_material_name_1 = None,
              fe_unit_of_measure = None, fe_group_id = None\<rparr>\<rparr>)
      400 [(js ''set-cookie'', js ''sb-token=1'')]), store0)
     \<and> status (response_of (fst (action client_ok form_abc_no_code store0))) = 400"
proof -
  have c: "\<not> some_required_missing form_abc"
    by (simp add: some_required_missing_def form_abc_fields not_falsy_examples)
  have n: "isNaN (parseInt (form_get form_abc (js ''group_id'')))"
    by (simp add: form_abc_fields parseInt_examples isNaN_def)
  have m: "some_required_missing form_abc_no_code"
    by (simp add: some_required_missing_def form_abc_no_code_fields not_falsy_examples)
  have h: "response_headers client_ok = [(js ''set-cookie'', js ''sb-token=1'')]"
    by (simp add: client_ok_def)
  from group_id_checked_after_required_fields [OF client_ok_session, of form_abc store0] c n h
  have 1: "action client_ok form_abc store0 =
     (Returned (json (Json_action \<lparr>ad_error = None, ad_fieldErrors =
        Some \<lparr>fe_stock_code = None, fe_material_name_1 = None,
              fe_unit_of_measure = None, fe_group_id = Some msg_group_id_invalid\<rparr>\<rparr>)
      400 [(js ''set-cookie'', js ''sb-token=1'')]), store0)"
    by simp
  from group_id_checked_after_required_fields [OF client_ok_session, of form_abc_no_code store0] m h
  have 2: "action client_ok form_abc_no_code store0 =
     (Returned (json (Json_action \<lparr>ad_error = None, ad_fieldErrors =
        Some \<lparr>fe_stock_code = Some msg_stock_code_required, fe_material_name_1 = None,
              fe_unit_of_measure = None, fe_group_id = None\<rparr>\<rparr>)
      400 [(js ''set-cookie'', js ''sb-token=1'')]), store0)
     \<and> status (response_of (fst (action client_ok form_abc_no_code store0))) = 400"
    by (simp add: form_abc_no_code_fields not_falsy_examples response_of_def json_def)
  from 1 2 m show ?thesis by blast
qed

text \<open>
  The claim as stated fails at this submission: \<^verbatim>\<open>stock_code\<close> is empty and \<^verbatim>\<open>group_id\<close> is
  "abc". The 400 response carries the required error of \<^verbatim>\<open>stock_code\<close> and no \<^verbatim>\<open>group_id\<close>
  error.
\<close>

theorem non_numeric_group_id_unreported_counterexample:
  "parseInt (form_get form_abc_no_code (js ''group_id'')) = NaN
   \<and> action client_ok form_abc_no_code store0 =
     (Returned (json (Json_action \<lparr>ad_error = None, ad_fieldErrors =
        Some \<lparr>fe_stock_code = Some msg_stock_code_required, fe_material_name_1 = None,
              fe_unit_of_measure = None, fe_group_id = None\<rparr>\<rparr>)
      400 [(js ''set-cookie'', js ''sb-token=1'')]), store0)"
proof -
  have m: "some_required_missing form_abc_no_code"
    by (simp add: some_required_missing_def form_abc_no_code_fields not_falsy_examples)
  have h: "response_headers client_ok = [(js ''set-cookie'', js ''sb-token=1'')]"
    by (simp add: client_ok_def)
  show ?thesis
    by (simp add: action_missing [OF client_ok_session m] form_abc_no_code_fields
        not_falsy_examples parseInt_examples h)
qed

section \<open>The insert and its errors\<close>

lemma action_insert_refused:
  assumes "getSession sb = Some s" and "\<not> some_required_missing formData"
    and "\<not> isNaN (parseInt (form_get formData (js ''group_id'')))"
    and "insert_error sb (submitted_row formData) (products_table st) = Some e"
  shows "action sb formData st =
    (Returned (if err_code e = js ''23505''
       then json (Json_action
              \<lparr>ad_error = Some (msg_duplicate (form_get formData (js ''stock_code''))),
               ad_fieldErrors = None\<rparr>) 409 (response_headers sb)
       else json (Json_action \<lparr>ad_error = Some msg_insert_failed, ad_fieldErrors = None\<rparr>)
              500 (response_headers sb)),
     st\<lparr>calls := calls st @ [Insert (js ''products'') (submitted_row formData)]\<rparr>)"
  using assms(3)
  by (simp add: action_complete [OF assms(1,2)] insert_products_refused [OF assms(4)])

lemma action_insert_accepted:
  assumes "getSession sb = Some s" and "\<not> some_required_missing formData"
    and "\<not> isNaN (parseInt (form_get formData (js ''group_id'')))"
    and "insert_error sb (submitted_row formData) (products_table st) = None"
  shows "action sb formData st =
    (Returned (redirect (js ''/products'') (response_headers sb)),
     st\<lparr>products_table := products_table st @ [submitted_row formData],
        calls := calls st @ [Insert (js ''products'') (submitted_row formData)]\<rparr>)"
  using assms(3)
  by (simp add: action_complete [OF assms(1,2)] insert_products_accepted [OF assms(4)])

text \<open>
  Claim C4. A signed-in, complete submission whose insert the store refuses with code
  23505: the action returns status 409 with the message "Bu Stok Kodu (code) zaten mevcut."
  around the submitted \<^verbatim>\<open>stock_code\<close>; the table of products is as before, and the refused
  insert is the only store call.
\<close>

theorem duplicate_stock_code_gives_409:
  assumes "getSession sb = Some s" and "\<not> some_required_missing formData"
    and "\<not> isNaN (parseInt (form_get formData (js ''group_id'')))"
    and "insert_error sb (submitted_row formData) (products_table st) = Some e"
    and "err_code e = js ''23505''"
    and "form_get formData (js ''stock_code'') = Some code"
  shows "fst (action sb formData st) =
       Returned (json (Json_action
         \<lparr>ad_error = Some (js ''Bu Stok Kodu ('' @ code @ js '') zaten mevcut.''),
          ad_fieldErrors = None\<rparr>) 409 (response_headers sb))
     \<and> status (response_of (fst (action sb formData st))) = 409
     \<and> sublist code (js ''Bu Stok Kodu ('' @ code @ js '') zaten mevcut.'')
     \<and> products_table (snd (action sb formData st)) = products_table st
     \<and> calls (snd (action sb formData st))
         = calls st @ [Insert (js ''products'') (submitted_row formData)]"
proof -
  have "sublist code (js ''Bu Stok Kodu ('' @ code @ js '') zaten mevcut.'')"
    unfolding sublist_def by blast
  then show ?thesis
    using assms(5,6)
    by (simp add: action_insert_refused [OF assms(1-4)] msg_duplicate_def to_string_def
        response_of_def json_def)
qed

theorem duplicate_stock_code_gives_409_witness:
  "insert_error client_unique (submitted_row form_valid) (products_table store_with_vida)
     = Some \<lparr>err_code = js ''23505'', err_message = js ''duplicate key''\<rparr>
   \<and> fst (action client_unique form_valid store_with_vida) =
       Returned (json (Json_action
         \<lparr>ad_error = Some (js ''Bu Stok Kodu ('' @ js ''V-1'' @ js '') zaten mevcut.''),
          ad_fieldErrors = None\<rparr>) 409 (response_headers client_unique))
   \<and> products_table (snd (action client_unique form_valid store_with_vida))
       = [submitted_row form_valid]"
proof -
  have s: "getSession client_unique = Some \<lparr>user_id = js ''u1''\<rparr>"
    by (simp add: client_unique_def client_ok_def)
  have c: "\<not> some_required_missing form_valid"
    by (simp add: some_required_missing_def form_valid_fields not_falsy_examples)
  have n: "\<not> isNaN (parseInt (form_get form_valid (js ''group_id'')))"
    by (simp add: form_valid_fields parseInt_examples isNaN_def)
  have e: "insert_error client_unique (submitted_row form_valid) (products_table store_with_vida)
     = Some \<lparr>err_code = js ''23505'', err_message = js ''duplicate key''\<rparr>"
    by (simp add: client_unique_def client_ok_def store_with_vida_def)
  have t: "products_table store_with_vida = [submitted_row form_valid]"
    by (simp add: store_with_vida_def)
  from duplicate_stock_code_gives_409 [OF s c n e _ form_valid_fields(1)] e t
  show ?thesis by simp
qed

text \<open>
  Claim C5. A signed-in, complete submission whose \<^verbatim>\<open>material_name_2\<close> and
  \<^verbatim>\<open>serial_number\<close> are omitted or empty, accepted by the store: the one row inserted has
  both fields \<^verbatim>\<open>null\<close> and \<^verbatim>\<open>current_stock\<close> 0, and the action returns a redirect (302) to
  \<^verbatim>\<open>/products\<close>.
\<close>

theorem valid_submission_is_inserted_and_redirects:
  assumes "getSession sb = Some s" and "\<not> some_required_missing formData"
    and "\<not> isNaN (parseInt (form_get formData (js ''group_id'')))"
    and "falsy (form_get formData (js ''material_name_2''))"
    and "falsy (form_get formData (js ''serial_number''))"
    and "insert_error sb (submitted_row formData) (products_table st) = None"
  shows "action sb formData st =
       (Returned (redirect (js ''/products'') (response_headers sb)),
        st\<lparr>products_table := products_table st @ [submitted_row formData],
           calls := calls st @ [Insert (js ''products'') (submitted_row formData)]\<rparr>)
     \<and> row_material_name_2 (submitted_row formData) = None
     \<and> row_serial_number (submitted_row formData) = None
     \<and> row_current_stock (submitted_row formData) = Exact 0
     \<and> status (redirect (js ''/products'') (response_headers sb)) = 302
     \<and> headers_get (js ''location'') (headers (redirect (js ''/products'') (response_headers sb)))
         = Some (js ''/products'')"
  using assms(4,5)
  by (simp add: action_insert_accepted [OF assms(1-3,6)] submitted_row_def or_null_def
      redirect_status redirect_location)

theorem valid_submission_is_inserted_and_redirects_witness:
  "form_get form_valid (js ''material_name_2'') = Some []
   \<and> form_get form_valid (js ''serial_number'') = None
   \<and> fst (action client_ok form_valid store0)
       = Returned (redirect (js ''/products'') (response_headers client_ok))
   \<and> products_table (snd (action client_ok form_valid store0)) =
       [\<lparr>row_stock_code = Some (js ''V-1''), row_material_name_1 = Some (js ''Vida''),
         row_material_name_2 = None, row_unit_of_measure = Some (js ''kutu''),
         row_serial_number = None, row_group_id = Exact 3, row_current_stock = Exact 0\<rparr>]"
proof -
  have c: "\<not> some_required_missing form_valid"
    by (simp add: some_required_missing_def form_valid_fields not_falsy_examples)
  have n: "\<not> isNaN (parseInt (form_get form_valid (js ''group_id'')))"
    by (simp add: form_valid_fields parseInt_examples isNaN_def)
  have f: "falsy (form_get form_valid (js ''material_name_2''))"
      "falsy (form_get form_valid (js ''serial_number''))"
    by (simp_all add: form_valid_fields not_falsy_examples)
  have a: "insert_error client_ok (submitted_row form_valid) (products_table store0) = None"
    by (simp add: client_ok_def)
  have r: "submitted_row form_valid =
       \<lparr>row_stock_code = Some (js ''V-1''), row_material_name_1 = Some (js ''Vida''),
         row_material_name_2 = None, row_unit_of_measure = Some (js ''kutu''),
         row_serial_number = None, row_group_id = Exact 3, row_current_stock = Exact 0\<rparr>"
    by (simp add: submitted_row_def form_valid_fields or_null_def not_falsy_examples
        parseInt_examples)
  from valid_submission_is_inserted_and_redirects [OF client_ok_session c n f a] r
  show ?thesis by (simp add: form_valid_fields store0_def)
qed

text \<open>
  Claim C6. A signed-in, complete submission whose insert the store refuses: the
  action returns (it does not throw) a response of status 409 or 500, and for every code
  other than 23505 it is the 500 response with the fixed message of a database error; the
  table of products is as before. The only other store call of the route, the query of
  the form loader, becomes a response of status 500 when it fails.
\<close>

theorem store_error_gives_500:
  assumes "getSession sb = Some s" and "\<not> some_required_missing formData"
    and "\<not> isNaN (parseInt (form_get formData (js ''group_id'')))"
    and "insert_error sb (submitted_row formData) (products_table st) = Some e"
  shows "is_returned (fst (action sb formData st))
     \<and> (status (response_of (fst (action sb formData st))) = 409
        \<or> status (response_of (fst (action sb formData st))) = 500)
     \<and> (err_code e \<noteq> js ''23505'' \<longrightarrow>
          fst (action sb formData st) =
            Returned (json (Json_action \<lparr>ad_error = Some msg_insert_failed,
               ad_fieldErrors = None\<rparr>) 500 (response_headers sb)))
     \<and> products_table (snd (action sb formData st)) = products_table st
     \<and> (\<forall>e'. select_groups sb groups_query (products_table st) = Inl e' \<longrightarrow>
          status (response_of (fst (loader_new_product sb st))) = 500)"
  using assms(1)
  by (simp add: action_insert_refused [OF assms] is_returned_def response_of_def json_def
      loader_new_product_def run_select_groups_def new_Response_def)

theorem store_error_gives_500_witness:
  "insert_error client_down (submitted_row form_valid) (products_table store0)
     = Some \<lparr>err_code = js ''08006'', err_message = js ''connection failure''\<rparr>
   \<and> js ''08006'' \<noteq> js ''23505''
   \<and> fst (action client_down form_valid store0) =
       Returned (json (Json_action \<lparr>ad_error = Some msg_insert_failed, ad_fieldErrors = None\<rparr>)
         500 (response_headers client_down))
   \<and> products_table (snd (action client_down form_valid store0)) = []
   \<and> status (response_of (fst (loader_new_product client_down store0))) = 500"
proof -
  have s: "getSession client_down = Some \<lparr>user_id = js ''u1''\<rparr>"
    by (simp add: client_down_def client_ok_def)
  have c: "\<not> some_required_missing form_valid"
    by (simp add: some_required_missing_def form_valid_fields not_falsy_examples)
  have n: "\<not> isNaN (parseInt (form_get form_valid (js ''group_id'')))"
    by (simp add: form_valid_fields parseInt_examples isNaN_def)
  have e: "insert_error client_down (submitted_row form_valid) (products_table store0)
     = Some \<lparr>err_code = js ''08006'', err_message = js ''connection failure''\<rparr>"
    by (simp add: client_down_def client_ok_def)
  have d: "js ''08006'' \<noteq> js ''23505''"
    by (simp add: js_def)
  have g: "select_groups client_down groups_query (products_table store0)
     = Inl \<lparr>err_code = js ''08006'', err_message = js ''connection failure''\<rparr>"
    by (simp add: client_down_def client_ok_def)
  from store_error_gives_500 [OF s c n e] e d g show ?thesis
    by (simp add: store0_def)
qed

lemma loader_products_data:
  assumes "getSession sb = Some s"
    and "select_products sb products_query (products_table st) = Inr ps"
  shows "loader_products sb st =
    (Returned (json (Json_products ps) 200 (response_headers sb)),
     st\<lparr>calls := calls st @ [Select products_query]\<rparr>)"
  using assms by (simp add: loader_products_def run_select_products_def)

lemma loader_products_error:
  assumes "getSession sb = Some s"
    and "select_products sb products_query (products_table st) = Inl e"
  shows "loader_products sb st =
    (Thrown (new_Response msg_products_failed 500),
     st\<lparr>calls := calls st @ [Select products_query]\<rparr>)"
  using assms by (simp add: loader_products_def run_select_products_def)

lemma tbody_empty: "tbody [] = [Placeholder_tr 6 msg_no_products]"
  by (simp add: tbody_def)

lemma tbody_nonempty:
  assumes "ps \<noteq> []"
  shows "length (tbody ps) = length ps \<and> list_all (\<lambda>row. \<not> is_placeholder row) (tbody ps)"
  using assms
  by (auto simp add: tbody_def list_all_iff product_tr_def is_placeholder_def)

section \<open>The product list\<close>

text \<open>
  Claim C7. A signed-in list request that the store answers with data: the loader asks
  for the products ordered by \<^verbatim>\<open>material_name_1\<close> ascending and returns the answer as it
  is, so the products are in that order whenever the store honours the order clause
  (under its collation \<open>le\<close>). The table body of an empty list is exactly the one placeholder
  row; that of a non-empty list has one product row per product and no placeholder.
\<close>

theorem listed_products_are_ordered:
  assumes "getSession sb = Some s" and "honours_order le sb"
    and "select_products sb products_query (products_table st) = Inr ps"
  shows "loader_products sb st =
       (Returned (json (Json_products ps) 200 (response_headers sb)),
        st\<lparr>calls := calls st @ [Select products_query]\<rparr>)
     \<and> sorted_wrt (\<lambda>a b. le (p_material_name_1 a) (p_material_name_1 b)) ps
     \<and> (ps = [] \<longrightarrow> tbody ps = [Placeholder_tr 6 msg_no_products])
     \<and> (ps \<noteq> [] \<longrightarrow> length (tbody ps) = length ps
           \<and> list_all (\<lambda>row. \<not> is_placeholder row) (tbody ps))"
proof -
  have "q_order products_query = js ''material_name_1'' \<and> q_ascending products_query"
    by (simp add: products_query_def)
  with assms(2,3)
  have "sorted_wrt (\<lambda>a b. le (p_material_name_1 a) (p_material_name_1 b)) ps"
    unfolding honours_order_def by blast
  then show ?thesis
    by (simp add: loader_products_data [OF assms(1,3)] tbody_empty tbody_nonempty)
qed

theorem listed_products_are_ordered_witness:
  "honours_order js_le client_ok
   \<and> fst (loader_products client_ok store0)
       = Returned (json (Json_products [product_civata, product_vida]) 200
           (response_headers client_ok))
   \<and> js_le (p_material_name_1 product_civata) (p_material_name_1 product_vida)
   \<and> length (tbody [product_civata, product_vida]) = 2
   \<and> fst (loader_products client_empty store0)
       = Returned (json (Json_products []) 200 (response_headers client_empty))
   \<and> tbody [] = [Placeholder_tr 6 msg_no_products]"
proof -
  have le: "js_le (p_material_name_1 product_civata) (p_material_name_1 product_vida)"
    by (simp add: product_civata_def product_vida_def js_def)
  have h1: "honours_order js_le client_ok"
    using le by (auto simp add: honours_order_def client_ok_def)
  have h2: "honours_order js_le client_empty"
    by (auto simp add: honours_order_def client_empty_def client_ok_def)
  have s2: "getSession client_empty = Some \<lparr>user_id = js ''u1''\<rparr>"
    by (simp add: client_empty_def client_ok_def)
  have d1: "select_products client_ok products_query (products_table store0)
      = Inr [product_civata, product_vida]"
    by (simp add: client_ok_def)
  have d2: "select_products client_empty products_query (products_table store0) = Inr []"
    by (simp add: client_empty_def client_ok_def)
  from listed_products_are_ordered [OF client_ok_session h1 d1]
    listed_products_are_ordered [OF s2 h2 d2] h1
  show ?thesis by simp
qed

section \<open>Headers of the auth client\<close>

lemma json_carries: "h \<in> set hs \<Longrightarrow> h \<in> set (headers (json data st hs))"
  by (force simp add: json_def headers_set_def headers_has_def)

lemma redirect_carries:
  "h \<in> set hs \<Longrightarrow> fst h \<noteq> js ''location'' \<Longrightarrow> h \<in> set (headers (redirect url hs))"
  by (simp add: redirect_def headers_set_def)

lemma action_carries_auth_headers:
  assumes "h \<in> set (response_headers sb)" and "fst h \<noteq> js ''location''"
  shows "h \<in> set (headers (response_of (fst (action sb formData st))))"
proof (cases "getSession sb")
  case None
  then show ?thesis
    using assms by (simp add: action_no_session response_of_def redirect_carries)
next
  case (Some s)
  show ?thesis
  proof (cases "some_required_missing formData")
    case True
    show ?thesis
      using assms(1) by (simp add: action_missing [OF Some True] response_of_def json_carries)
  next
    case False
    show ?thesis
    proof (cases "isNaN (parseInt (form_get formData (js ''group_id'')))")
      case True
      then show ?thesis
        using assms(1) by (simp add: action_complete [OF Some False] response_of_def json_carries)
    next
      case nan: False
      show ?thesis
      proof (cases "insert_error sb (submitted_row formData) (products_table st)")
        case None
        show ?thesis
          using assms
          by (simp add: action_insert_accepted [OF Some False nan None] response_of_def
              redirect_carries)
      next
        case (Some e)
        show ?thesis
          using assms(1)
          by (simp add: action_insert_refused [OF \<open>getSession sb = Some s\<close> False nan Some]
              response_of_def json_carries)
      qed
    qed
  qed
qed

text \<open>
  Claim C10. The list loader at a failing store: the auth client has put a
  \<^verbatim>\<open>set-cookie\<close> header on the response object, the store answers the product query with an
  error, and the loader throws a 500 response built without those headers, so the cookie
  is not in it. The action and every other path of the loaders pass the headers on
  (\<open>action_carries_auth_headers\<close>, \<open>loader_products_data\<close>).
\<close>

theorem list_loader_500_drops_auth_headers:
  "response_headers client_down = [(js ''set-cookie'', js ''sb-token=1'')]
   \<and> fst (loader_products client_down store0) = Thrown (new_Response msg_products_failed 500)
   \<and> status (new_Response msg_products_failed 500) = 500
   \<and> headers (new_Response msg_products_failed 500)
       = [(js ''content-type'', js ''text/plain;charset=UTF-8'')]
   \<and> headers_get (js ''set-cookie'')
        (headers (response_of (fst (loader_products client_down store0)))) = None"
proof -
  have s: "getSession client_down = Some \<lparr>user_id = js ''u1''\<rparr>"
    by (simp add: client_down_def client_ok_def)
  have e: "select_products client_down products_query (products_table store0)
     = Inl \<lparr>err_code = js ''08006'', err_message = js ''connection failure''\<rparr>"
    by (simp add: client_down_def client_ok_def)
  have h: "response_headers client_down = [(js ''set-cookie'', js ''sb-token=1'')]"
    by (simp add: client_down_def client_ok_def)
  have g: "headers_get (js ''set-cookie'') [(js ''content-type'', js ''text/plain;charset=UTF-8'')]
     = None"
    by (simp add: headers_get_def js_def)
  show ?thesis
    using g by (simp add: loader_products_error [OF s e] h new_Response_def response_of_def)
qed

section \<open>What the validation lets through\<close>

lemma digit_not_space: "is_digit c \<Longrightarrow> \<not> is_white_space c"
  by (auto simp add: is_digit_def is_white_space_def)

lemma digit_not_sign: "is_digit c \<Longrightarrow> c \<noteq> 0x2D \<and> c \<noteq> 0x2B"
  by (auto simp add: is_digit_def)

lemma digit_value_range: "is_digit c \<Longrightarrow> 0 \<le> digit_value c \<and> digit_value c \<le> 9"
  by (simp add: is_digit_def digit_value_def word_le_def)

lemma decimal_snoc: "decimal (ds @ [d]) = 10 * decimal ds + digit_value d"
  by (simp add: decimal_def)

lemma decimal_range:
  "list_all is_digit ds \<Longrightarrow> 0 \<le> decimal ds \<and> decimal ds < 10 ^ length ds"
proof (induction ds rule: rev_induct)
  case Nil
  then show ?case by (simp add: decimal_def)
next
  case (snoc d ds)
  then have ih: "0 \<le> decimal ds" "decimal ds < 10 ^ length ds" and d: "is_digit d"
    by simp_all
  from ih(2) have "decimal ds + 1 \<le> 10 ^ length ds" by simp
  then have "10 * decimal ds + 10 \<le> 10 * 10 ^ length ds" by simp
  with digit_value_range [OF d] ih(1) show ?case
    by (simp add: decimal_snoc)
qed

lemma decimal_exact:
  assumes "list_all is_digit ds" and "length ds \<le> 15"
  shows "to_number (decimal ds) = Exact (decimal ds)"
proof -
  have "(10::int) ^ length ds \<le> 10 ^ 15"
    using assms(2) by (intro power_increasing) simp_all
  with decimal_range [OF assms(1)] have "0 \<le> decimal ds" "decimal ds < 10 ^ 15"
    by simp_all
  then show ?thesis by (simp add: to_number_def)
qed

lemma to_number_not_NaN: "\<not> isNaN (to_number m)"
  by (simp add: to_number_def isNaN_def)

lemma parseInt10_digit_prefix:
  assumes "ds \<noteq> []" and "list_all is_digit ds"
    and "rest = [] \<or> \<not> is_digit (hd rest)"
  shows "parseInt10 (ds @ rest) = to_number (decimal ds)"
proof -
  from assms(1) obtain d ds' where ds: "ds = d # ds'" by (cases ds) auto
  with assms(2) have d: "is_digit d" by simp
  have drop: "dropWhile is_white_space (ds @ rest) = ds @ rest"
    using ds digit_not_space [OF d] by simp
  have take: "takeWhile is_digit (ds @ rest) = ds"
  proof (cases rest)
    case Nil
    with assms(2) show ?thesis by (simp add: list_all_iff)
  next
    case (Cons r rs)
    with assms(3) have "\<not> is_digit r" by simp
    with Cons assms(2) show ?thesis
      by (simp add: list_all_iff takeWhile_append2)
  qed
  have hd: "hd (ds @ rest) = d" using ds by simp
  show ?thesis
    using digit_not_sign [OF d] assms(1)
    by (simp add: parseInt10_def drop take hd)
qed

lemma action_issues_insert:
  assumes "getSession sb = Some s" and "\<not> some_required_missing formData"
    and "\<not> isNaN (parseInt (form_get formData (js ''group_id'')))"
  shows "calls (snd (action sb formData st))
           = calls st @ [Insert (js ''products'') (submitted_row formData)]
     \<and> status (response_of (fst (action sb formData st))) \<noteq> 400"
proof (cases "insert_error sb (submitted_row formData) (products_table st)")
  case None
  show ?thesis
    by (simp add: action_insert_accepted [OF assms None] response_of_def redirect_def)
next
  case (Some e)
  show ?thesis
    by (simp add: action_insert_refused [OF assms Some] response_of_def json_def)
qed

text \<open>
  Claim C8. A signed-in submission with the other required fields present, whose
  \<^verbatim>\<open>group_id\<close> is a run of decimal digits followed by something that does not start with a
  digit (as "12abc"): \<^verbatim>\<open>parseInt\<close> yields the Number of the digits' value and not \<^verbatim>\<open>NaN\<close>,
  no 400 is returned, the insert is issued with that Number as \<^verbatim>\<open>group_id\<close>, and when the
  store accepts it the row is created and the action redirects to \<^verbatim>\<open>/products\<close>. For up to
  fifteen digits the value is below \<open>2 ^ 53\<close> and the Number is the integer itself.
\<close>

theorem numeric_prefix_group_id_is_accepted:
  assumes "getSession sb = Some s"
    and "\<not> falsy (form_get formData (js ''stock_code''))"
    and "\<not> falsy (form_get formData (js ''material_name_1''))"
    and "\<not> falsy (form_get formData (js ''unit_of_measure''))"
    and "form_get formData (js ''group_id'') = Some (ds @ rest)"
    and "ds \<noteq> []" and "list_all is_digit ds"
    and "rest \<noteq> []" and "\<not> is_digit (hd rest)"
  shows "parseInt (Some (ds @ rest)) = to_number (decimal ds)
     \<and> \<not> isNaN (parseInt (Some (ds @ rest)))
     \<and> row_group_id (submitted_row formData) = to_number (decimal ds)
     \<and> (length ds \<le> 15 \<longrightarrow> row_group_id (submitted_row formData) = Exact (decimal ds))
     \<and> calls (snd (action sb formData st))
         = calls st @ [Insert (js ''products'') (submitted_row formData)]
     \<and> status (response_of (fst (action sb formData st))) \<noteq> 400
     \<and> (insert_error sb (submitted_row formData) (products_table st) = None \<longrightarrow>
          action sb formData st =
            (Returned (redirect (js ''/products'') (response_headers sb)),
             st\<lparr>products_table := products_table st @ [submitted_row formData],
                calls := calls st @ [Insert (js ''products'') (submitted_row formData)]\<rparr>))"
proof -
  have p: "parseInt (Some (ds @ rest)) = to_number (decimal ds)"
    using assms(9) by (simp add: parseInt_def parseInt10_digit_prefix [OF assms(6,7)])
  have g: "\<not> falsy (form_get formData (js ''group_id''))"
    using assms(5,6) by (simp add: falsy_def)
  have c: "\<not> some_required_missing formData"
    using assms(2-4) g by (simp add: some_required_missing_def)
  have n: "\<not> isNaN (parseInt (form_get formData (js ''group_id'')))"
    by (simp add: assms(5) p to_number_not_NaN)
  have r: "row_group_id (submitted_row formData) = to_number (decimal ds)"
    by (simp add: submitted_row_def assms(5) p)
  have x: "length ds \<le> 15 \<longrightarrow> row_group_id (submitted_row formData) = Exact (decimal ds)"
    using r decimal_exact [OF assms(7)] by simp
  show ?thesis
    using p r x n assms(5) action_issues_insert [OF assms(1) c n, of st]
      action_insert_accepted [OF assms(1) c n, of st]
    by simp
qed

lemma form_12abc_fields:
  "form_get form_12abc (js ''stock_code'') = Some (js ''V-1'')"
  "form_get form_12abc (js ''material_name_1'') = Some (js ''Vida'')"
  "form_get form_12abc (js ''material_name_2'') = None"
  "form_get form_12abc (js ''unit_of_measure'') = Some (js ''kutu'')"
  "form_get form_12abc (js ''serial_number'') = None"
  "form_get form_12abc (js ''group_id'') = Some (js ''12abc'')"
  by (simp_all add: form_12abc_def form_get_def js_def)

theorem numeric_prefix_group_id_is_accepted_witness:
  "form_get form_12abc (js ''group_id'') = Some (js ''12abc'')
   \<and> parseInt (Some (js ''12abc'')) = Exact 12
   \<and> action client_ok form_12abc store0 =
       (Returned (redirect (js ''/products'') (response_headers client_ok)),
        \<lparr>products_table =
           [\<lparr>row_stock_code = Some (js ''V-1''), row_material_name_1 = Some (js ''Vida''),
             row_material_name_2 = None, row_unit_of_measure = Some (js ''kutu''),
             row_serial_number = None, row_group_id = Exact 12, row_current_stock = Exact 0\<rparr>],
          calls = [Insert (js ''products'')
            \<lparr>row_stock_code = Some (js ''V-1''), row_material_name_1 = Some (js ''Vida''),
             row_material_name_2 = None, row_unit_of_measure = Some (js ''kutu''),
             row_serial_number = None, row_group_id = Exact 12, row_current_stock = Exact 0\<rparr>]\<rparr>)"
proof -
  have j: "js ''12'' @ js ''abc'' = js ''12abc''"
    by (simp add: js_def)
  have g: "form_get form_12abc (js ''group_id'') = Some (js ''12'' @ js ''abc'')"
    by (simp only: j form_12abc_fields)
  have d: "js ''12'' \<noteq> []" "list_all is_digit (js ''12'')"
      "js ''abc'' \<noteq> []" "\<not> is_digit (hd (js ''abc''))"
    by (simp_all add: js_def is_digit_def)
  have l: "length (js ''12'') \<le> 15"
    by (simp add: js_def)
  have v: "decimal (js ''12'') = 12"
    by (simp add: decimal_def js_def digit_value_def)
  have a: "insert_error client_ok (submitted_row form_12abc) (products_table store0) = None"
    by (simp add: client_ok_def)
  have r: "submitted_row form_12abc =
       \<lparr>row_stock_code = Some (js ''V-1''), row_material_name_1 = Some (js ''Vida''),
         row_material_name_2 = None, row_unit_of_measure = Some (js ''kutu''),
         row_serial_number = None, row_group_id = Exact 12, row_current_stock = Exact 0\<rparr>"
    by (simp add: submitted_row_def form_12abc_fields or_null_def not_falsy_examples
        parseInt_examples)
  from numeric_prefix_group_id_is_accepted [OF client_ok_session _ _ _ g d, of store0] a r v j l
  show ?thesis
    by (simp add: form_12abc_fields not_falsy_examples store0_def)
qed

lemma whitespace_only_not_falsy: "whitespace_only s \<Longrightarrow> \<not> falsy (Some s)"
  by (simp add: whitespace_only_def falsy_def)

text \<open>
  Claim C9. A signed-in submission whose \<^verbatim>\<open>stock_code\<close>, \<^verbatim>\<open>material_name_1\<close> and
  \<^verbatim>\<open>unit_of_measure\<close> consist of white space only, with a \<^verbatim>\<open>group_id\<close> that parses: the
  required-field checks pass (of the strings only the empty one is falsy), no 400 is
  returned, and the insert is issued with the three values as submitted; a
  \<^verbatim>\<open>material_name_2\<close> or \<^verbatim>\<open>serial_number\<close> of white space only is passed as submitted too,
  not as \<^verbatim>\<open>null\<close>.
\<close>

theorem whitespace_only_fields_are_stored_verbatim:
  assumes "getSession sb = Some s"
    and "form_get formData (js ''stock_code'') = Some s1" and "whitespace_only s1"
    and "form_get formData (js ''material_name_1'') = Some s2" and "whitespace_only s2"
    and "form_get formData (js ''unit_of_measure'') = Some s3" and "whitespace_only s3"
    and "\<not> falsy (form_get formData (js ''group_id''))"
    and "\<not> isNaN (parseInt (form_get formData (js ''group_id'')))"
  shows "\<not> some_required_missing formData
     \<and> status (response_of (fst (action sb formData st))) \<noteq> 400
     \<and> calls (snd (action sb formData st))
         = calls st @ [Insert (js ''products'') (submitted_row formData)]
     \<and> row_stock_code (submitted_row formData) = Some s1
     \<and> row_material_name_1 (submitted_row formData) = Some s2
     \<and> row_unit_of_measure (submitted_row formData) = Some s3
     \<and> (\<forall>s4. form_get formData (js ''material_name_2'') = Some s4 \<and> whitespace_only s4
           \<longrightarrow> row_material_name_2 (submitted_row formData) = Some s4)
     \<and> (\<forall>s5. form_get formData (js ''serial_number'') = Some s5 \<and> whitespace_only s5
           \<longrightarrow> row_serial_number (submitted_row formData) = Some s5)
     \<and> (\<forall>v. falsy (Some v) = (v = []))"
proof -
  have c: "\<not> some_required_missing formData"
    using assms(2-8) by (simp add: some_required_missing_def whitespace_only_not_falsy)
  have o: "\<And>v. whitespace_only v \<Longrightarrow> or_null (Some v) = Some v"
    by (simp add: or_null_def whitespace_only_not_falsy)
  have f: "\<forall>v. falsy (Some v) = (v = [])"
    by (simp add: falsy_def)
  show ?thesis
    using c f action_issues_insert [OF assms(1) c assms(9), of st] assms(2,4,6)
    by (auto simp add: submitted_row_def o)
qed

lemma form_blank_fields:
  "form_get form_blank (js ''stock_code'') = Some (js '' '')"
  "form_get form_blank (js ''material_name_1'') = Some (js '' '')"
  "form_get form_blank (js ''material_name_2'') = Some (js '' '')"
  "form_get form_blank (js ''unit_of_measure'') = Some (js '' '')"
  "form_get form_blank (js ''serial_number'') = Some (js '' '')"
  "form_get form_blank (js ''group_id'') = Some (js ''3'')"
  by (simp_all add: form_blank_def form_get_def js_def)

theorem whitespace_only_fields_are_stored_verbatim_witness:
  "whitespace_only (js '' '')
   \<and> form_get form_blank (js ''stock_code'') = Some (js '' '')
   \<and> status (response_of (fst (action client_ok form_blank store0))) \<noteq> 400
   \<and> calls (snd (action client_ok form_blank store0)) =
       [Insert (js ''products'')
         \<lparr>row_stock_code = Some (js '' ''), row_material_name_1 = Some (js '' ''),
          row_material_name_2 = Some (js '' ''), row_unit_of_measure = Some (js '' ''),
          row_serial_number = Some (js '' ''), row_group_id = Exact 3,
          row_current_stock = Exact 0\<rparr>]"
proof -
  have w: "whitespace_only (js '' '')"
    by (simp add: whitespace_only_def is_white_space_def js_def)
  have g: "\<not> falsy (form_get form_blank (js ''group_id''))"
      "\<not> isNaN (parseInt (form_get form_blank (js ''group_id'')))"
    by (simp_all add: form_blank_fields not_falsy_examples parseInt_examples isNaN_def)
  have r: "submitted_row form_blank =
         \<lparr>row_stock_code = Some (js '' ''), row_material_name_1 = Some (js '' ''),
          row_material_name_2 = Some (js '' ''), row_unit_of_measure = Some (js '' ''),
          row_serial_number = Some (js '' ''), row_group_id = Exact 3,
          row_current_stock = Exact 0\<rparr>"
    by (simp add: submitted_row_def form_blank_fields or_null_def not_falsy_examples
        parseInt_examples)
  from whitespace_only_fields_are_stored_verbatim [OF client_ok_session
      form_blank_fields(1) w form_blank_fields(2) w form_blank_fields(4) w g, of store0] w r
  show ?thesis
    by (simp add: form_blank_fields store0_def)
qed

end
